theory Spec2Isabelle
  imports Main
begin

section \<open>The greet-FastAPI base: values, collaborators and the two handlers\<close>

text \<open>
  The module under verification is \<^verbatim>\<open>bases/datum/greet_fastapi/core.py\<close>:
  \<^verbatim>\<open>
  logger = get_logger("greet-FastAPI-logger")
  app = FastAPI()

  @app.get("/")
  def root() -> dict:
      logger.info("The FastAPI root endpoint was called.")

      return {"message": greeting.hello_world()}

  @app.get("/items/{item_id}")
  def read_item(item_id: int, q: Union[str, None] = None):
      return {"item_id": item_id, "q": q}
  \<close>
  Python values that occur in the two dictionaries are \<open>None\<close>, unbounded integers
  and strings. A dictionary literal is an association list in the order the literal
  writes its keys.
\<close>

datatype pyval = PNone | PInt int | PStr string

type_synonym dict = "(string \<times> pyval) list"

subsection \<open>Collaborator calls as observable events\<close>

text \<open>
  The logger and the greeting provider are imported from other packages. They are
  parameters of the model: a collaborator is a function on an environment \<open>'w\<close>
  (everything outside this module that it may read or change) that either raises
  (\<open>Inl e\<close>) or returns a value (\<open>Inr v\<close>) and leaves behind a new environment.
  Every call the module makes is appended to a trace, so that the number and the
  order of the calls can be stated.
\<close>

datatype event = LoggerInfo string | HelloWorld

record 'w world =
  trace :: "event list"
  env :: 'w

text \<open>\<^verbatim>\<open>logger.info(msg)\<close>: the call is made, then the logger does whatever it does.\<close>

definition logger_info ::
  "(string \<Rightarrow> 'w \<Rightarrow> ('e + pyval) \<times> 'w) \<Rightarrow> string \<Rightarrow> 'w world \<Rightarrow> ('e + pyval) \<times> 'w world" where
  "logger_info info msg s =
     (case info msg (env s) of
        (r, w) \<Rightarrow> (r, \<lparr>trace = trace s @ [LoggerInfo msg], env = w\<rparr>))"

text \<open>\<^verbatim>\<open>greeting.hello_world()\<close>: no arguments.\<close>

definition greeting_hello_world ::
  "('w \<Rightarrow> ('e + pyval) \<times> 'w) \<Rightarrow> 'w world \<Rightarrow> ('e + pyval) \<times> 'w world" where
  "greeting_hello_world hello_world s =
     (case hello_world (env s) of
        (r, w) \<Rightarrow> (r, \<lparr>trace = trace s @ [HelloWorld], env = w\<rparr>))"

subsection \<open>The handlers\<close>

text \<open>
  \<open>root\<close> has no \<^verbatim>\<open>try\<close>: an exception of the logger ends the invocation before the
  greeting provider is reached, an exception of the greeting provider ends it before
  the dictionary is built. The value \<^verbatim>\<open>logger.info\<close> returns is dropped.
\<close>

definition root ::
  "(string \<Rightarrow> 'w \<Rightarrow> ('e + pyval) \<times> 'w) \<Rightarrow> ('w \<Rightarrow> ('e + pyval) \<times> 'w) \<Rightarrow>
   'w world \<Rightarrow> ('e + dict) \<times> 'w world" where
  "root info hello_world s =
     (case logger_info info ''The FastAPI root endpoint was called.'' s of
        (Inl e, s1) \<Rightarrow> (Inl e, s1)
      | (Inr _, s1) \<Rightarrow>
          (case greeting_hello_world hello_world s1 of
             (Inl e, s2) \<Rightarrow> (Inl e, s2)
           | (Inr v, s2) \<Rightarrow> (Inr [(''message'', v)], s2)))"

text \<open>
  \<open>q\<close> is annotated \<^verbatim>\<open>Union[str, None]\<close>: a \<open>string option\<close>, where \<open>None\<close> is
  Python's \<^verbatim>\<open>None\<close>. The dictionary holds the two arguments as Python values.
\<close>

primrec optional_str :: "string option \<Rightarrow> pyval" where
  "optional_str None = PNone"
| "optional_str (Some t) = PStr t"

definition read_item :: "int \<Rightarrow> string option \<Rightarrow> 'w world \<Rightarrow> ('e + dict) \<times> 'w world" where
  "read_item item_id q s = (Inr [(''item_id'', PInt item_id), (''q'', optional_str q)], s)"

text \<open>The default of the signature, \<^verbatim>\<open>q: Union[str, None] = None\<close>.\<close>

definition read_item_q_default :: "string option" where
  "read_item_q_default = None"

subsection \<open>The host framework\<close>

text \<open>
  Modelled from the spec: the web framework (FastAPI) that the decorators
  \<^verbatim>\<open>@app.get("/")\<close> and \<^verbatim>\<open>@app.get("/items/{item_id}")\<close> register the handlers
  with is not part of the repository. The spec says of it: a handler's returned
  mapping is the response body with status 200; an exception of a handler goes to
  the framework's generic error path (out of scope); an \<open>item_id\<close> that does not
  parse as an integer is rejected with a client error (4xx) before the handler
  runs; \<open>q\<close> is an optional query parameter. The integer parser and the status of
  the rejection are parameters, since the spec fixes neither.
\<close>

datatype 'e reply = Reply nat dict | Rejected nat | Unhandled 'e

text \<open>Modelled from the spec: the status of a reply; the generic error path has none here.\<close>

primrec status :: "'e reply \<Rightarrow> nat option" where
  "status (Reply c d) = Some c"
| "status (Rejected c) = Some c"
| "status (Unhandled e) = None"

text \<open>
  Modelled from the spec: what the framework makes of a handler's outcome, "200" with
  the returned mapping as body, or the generic error path for an exception.
\<close>

definition respond :: "('e + dict) \<times> 's \<Rightarrow> 'e reply \<times> 's" where
  "respond rs = (case rs of (Inl e, s) \<Rightarrow> (Unhandled e, s) | (Inr d, s) \<Rightarrow> (Reply 200 d, s))"

text \<open>Modelled from the spec: \<^verbatim>\<open>GET /\<close> takes no parameters and runs \<open>root\<close>.\<close>

definition root_route ::
  "(string \<Rightarrow> 'w \<Rightarrow> ('e + pyval) \<times> 'w) \<Rightarrow> ('w \<Rightarrow> ('e + pyval) \<times> 'w) \<Rightarrow>
   'w world \<Rightarrow> 'e reply \<times> 'w world" where
  "root_route info hello_world s = respond (root info hello_world s)"

text \<open>
  Modelled from the spec: \<^verbatim>\<open>GET /items/{item_id}\<close>. The framework parses the path
  segment first and rejects the request when that fails; otherwise it runs the
  handler with the integer and with \<open>q\<close> from the query string, or with the
  default of the signature when the query string has no \<open>q\<close>. The route is given
  the handler it dispatches to, so that "the handler is not run" can be stated as:
  the reply is the same whatever the handler is.
\<close>

definition items_route ::
  "(string \<Rightarrow> int option) \<Rightarrow> nat \<Rightarrow> (int \<Rightarrow> string option \<Rightarrow> 's \<Rightarrow> ('e + dict) \<times> 's) \<Rightarrow>
   string \<Rightarrow> (string \<rightharpoonup> string) \<Rightarrow> 's \<Rightarrow> 'e reply \<times> 's" where
  "items_route parse_int reject_status handler segment query s =
     (case parse_int segment of
        None \<Rightarrow> (Rejected reject_status, s)
      | Some item_id \<Rightarrow>
          respond (handler item_id
            (case query ''q'' of None \<Rightarrow> read_item_q_default | Some t \<Rightarrow> Some t) s))"

text \<open>Two requests to the root route, one after the other.\<close>

definition root_twice ::
  "(string \<Rightarrow> 'w \<Rightarrow> ('e + pyval) \<times> 'w) \<Rightarrow> ('w \<Rightarrow> ('e + pyval) \<times> 'w) \<Rightarrow>
   'w world \<Rightarrow> (('e + dict) \<times> ('e + dict)) \<times> 'w world" where
  "root_twice info hello_world s =
     (case root info hello_world s of
        (r1, s1) \<Rightarrow> (case root info hello_world s1 of (r2, s2) \<Rightarrow> ((r1, r2), s2)))"

subsection \<open>Reading a trace\<close>

primrec log_lines :: "event list \<Rightarrow> string list" where
  "log_lines [] = []"
| "log_lines (ev # evs) =
     (case ev of LoggerInfo msg \<Rightarrow> msg # log_lines evs | HelloWorld \<Rightarrow> log_lines evs)"

primrec greeting_calls :: "event list \<Rightarrow> nat" where
  "greeting_calls [] = 0"
| "greeting_calls (ev # evs) =
     (case ev of LoggerInfo msg \<Rightarrow> greeting_calls evs | HelloWorld \<Rightarrow> Suc (greeting_calls evs))"

text \<open>What one invocation of \<open>root\<close> adds to the trace, given how the logger's call ended.\<close>

definition root_calls :: "'e + pyval \<Rightarrow> event list" where
  "root_calls logged =
     LoggerInfo ''The FastAPI root endpoint was called.'' #
       (case logged of Inl e \<Rightarrow> [] | Inr x \<Rightarrow> [HelloWorld])"

subsection \<open>Sample collaborators and requests\<close>

text \<open>
  Concrete collaborators on which the statements below are evaluated: a logger
  that appends the line to a list, a logger that keeps nothing, a greeting
  provider that returns the literal of the spec's scenario, and a logger and a
  greeting provider that raise. \<open>fresh\<close> is the state before any call;
  \<open>logged_before\<close> has no call in its trace and one line in its environment. Exceptions are named by a
  string. \<open>scenario_parse_int\<close> accepts the one segment of the spec's scenarios,
  \<^verbatim>\<open>/items/5\<close>, and rejects everything else (\<^verbatim>\<open>/items/abc\<close>).
\<close>

definition list_logger :: "string \<Rightarrow> string list \<Rightarrow> (string + pyval) \<times> string list" where
  "list_logger msg w = (Inr PNone, w @ [msg])"

definition fixed_greeting :: "string list \<Rightarrow> (string + pyval) \<times> string list" where
  "fixed_greeting w = (Inr (PStr ''Hello World''), w)"

definition raising_logger :: "string \<Rightarrow> string list \<Rightarrow> (string + pyval) \<times> string list" where
  "raising_logger msg w = (Inl ''logger failed'', w)"

definition raising_greeting :: "string list \<Rightarrow> (string + pyval) \<times> string list" where
  "raising_greeting w = (Inl ''greeting failed'', w)"

definition silent_logger :: "string \<Rightarrow> string list \<Rightarrow> (string + pyval) \<times> string list" where
  "silent_logger msg w = (Inr PNone, w)"

definition fresh :: "string list world" where
  "fresh = \<lparr>trace = [], env = []\<rparr>"

definition logged_before :: "string list world" where
  "logged_before = \<lparr>trace = [], env = [''The FastAPI root endpoint was called.'']\<rparr>"

definition scenario_parse_int :: "string \<Rightarrow> int option" where
  "scenario_parse_int segment = (if segment = ''5'' then Some 5 else None)"

definition no_query :: "string \<rightharpoonup> string" where
  "no_query = Map.empty"

definition q_test :: "string \<rightharpoonup> string" where
  "q_test = [''q'' \<mapsto> ''test'']"

definition unused_handler :: "int \<Rightarrow> string option \<Rightarrow> string list world \<Rightarrow> (string + dict) \<times> string list world" where
  "unused_handler item_id q s = (Inl ''handler ran'', \<lparr>trace = [], env = [''handler ran'']\<rparr>)"

section \<open>Properties\<close>

subsection \<open>One invocation of the root handler, case by case\<close>

lemma root_logger_raises:
  assumes "info ''The FastAPI root endpoint was called.'' (env s) = (Inl e, w1)"
  shows "root info hello_world s =
    (Inl e, \<lparr>trace = trace s @ [LoggerInfo ''The FastAPI root endpoint was called.''], env = w1\<rparr>)"
  using assms by (simp add: root_def logger_info_def)

lemma root_greeting_raises:
  assumes "info ''The FastAPI root endpoint was called.'' (env s) = (Inr x, w1)"
    and "hello_world w1 = (Inl e, w2)"
  shows "root info hello_world s =
    (Inl e, \<lparr>trace = trace s @ [LoggerInfo ''The FastAPI root endpoint was called.'', HelloWorld],
             env = w2\<rparr>)"
  using assms by (simp add: root_def logger_info_def greeting_hello_world_def)

lemma root_returns:
  assumes "info ''The FastAPI root endpoint was called.'' (env s) = (Inr x, w1)"
    and "hello_world w1 = (Inr v, w2)"
  shows "root info hello_world s =
    (Inr [(''message'', v)],
     \<lparr>trace = trace s @ [LoggerInfo ''The FastAPI root endpoint was called.'', HelloWorld],
      env = w2\<rparr>)"
  using assms by (simp add: root_def logger_info_def greeting_hello_world_def)

lemma root_trace:
  "trace (snd (root info hello_world s)) =
     trace s @ root_calls (fst (info ''The FastAPI root endpoint was called.'' (env s)))"
  by (simp add: root_def logger_info_def greeting_hello_world_def root_calls_def
      split: prod.splits sum.splits)

lemma root_env:
  "env (snd (root info hello_world s)) =
     (case info ''The FastAPI root endpoint was called.'' (env s) of
        (Inl e, w1) \<Rightarrow> w1
      | (Inr x, w1) \<Rightarrow> snd (hello_world w1))"
  by (simp add: root_def logger_info_def greeting_hello_world_def
      split: prod.splits sum.splits)

lemma root_history_free:
  assumes "env s' = env s"
  shows "fst (root info hello_world s') = fst (root info hello_world s) \<and>
         env (snd (root info hello_world s')) = env (snd (root info hello_world s))"
  using assms
  by (simp add: root_def logger_info_def greeting_hello_world_def
      split: prod.splits sum.splits)

lemma root_stateless:
  assumes "\<forall>msg w. snd (info msg w) = w" and "\<forall>w. snd (hello_world w) = w"
  shows "env (snd (root info hello_world s)) = env s"
proof -
  have logged: "snd (info ''The FastAPI root endpoint was called.'' (env s)) = env s"
    using assms(1) by simp
  have greeted: "snd (hello_world (env s)) = env s"
    using assms(2) by simp
  show ?thesis
    using logged greeted by (auto simp add: root_env split: prod.splits sum.splits)
qed

lemma root_twice_state:
  "snd (root_twice info hello_world s) =
     snd (root info hello_world (snd (root info hello_world s)))"
  by (simp add: root_twice_def split: prod.splits)

lemma root_twice_second:
  "snd (fst (root_twice info hello_world s)) =
     fst (root info hello_world (snd (root info hello_world s)))"
  by (simp add: root_twice_def split: prod.splits)

lemma log_lines_append: "log_lines (xs @ ys) = log_lines xs @ log_lines ys"
  by (induction xs) (simp_all split: event.splits)

lemma greeting_calls_append: "greeting_calls (xs @ ys) = greeting_calls xs + greeting_calls ys"
  by (induction xs) (simp_all split: event.splits)

lemma log_lines_root_calls:
  "log_lines (root_calls logged) = [''The FastAPI root endpoint was called.'']"
  by (simp add: root_calls_def split: sum.splits)

lemma greeting_calls_root_calls:
  "greeting_calls (root_calls logged) = (case logged of Inl e \<Rightarrow> 0 | Inr x \<Rightarrow> 1)"
  by (simp add: root_calls_def split: sum.splits)

subsection \<open>The root route\<close>

text \<open>
  C1. For the root route, for every string \<open>v\<close> that the greeting provider returns in
  the invocation (so the logger's call before it has returned), the handler returns
  the dictionary \<open>{"message": v}\<close>, and the route answers with status 200 and exactly
  that body.
\<close>

theorem root_message_is_greeting:
  assumes "info ''The FastAPI root endpoint was called.'' (env s) = (Inr x, w1)"
    and "hello_world w1 = (Inr (PStr v), w2)"
  shows "fst (root info hello_world s) = Inr [(''message'', PStr v)] \<and>
         fst (root_route info hello_world s) = Reply 200 [(''message'', PStr v)] \<and>
         status (fst (root_route info hello_world s)) = Some 200"
  using assms root_returns [where info = info and s = s and x = x and ?w1.0 = w1
      and hello_world = hello_world and v = "PStr v" and ?w2.0 = w2]
  by (simp add: root_route_def respond_def)

theorem root_message_is_greeting_witness:
  "list_logger ''The FastAPI root endpoint was called.'' (env fresh) =
     (Inr PNone, [''The FastAPI root endpoint was called.'']) \<and>
   fixed_greeting [''The FastAPI root endpoint was called.''] =
     (Inr (PStr ''Hello World''), [''The FastAPI root endpoint was called.'']) \<and>
   fst (root list_logger fixed_greeting fresh) = Inr [(''message'', PStr ''Hello World'')] \<and>
   fst (root_route list_logger fixed_greeting fresh) = Reply 200 [(''message'', PStr ''Hello World'')] \<and>
   status (fst (root_route list_logger fixed_greeting fresh)) = Some 200"
proof -
  have logged: "list_logger ''The FastAPI root endpoint was called.'' (env fresh) =
      (Inr PNone, [''The FastAPI root endpoint was called.''])"
    by (simp add: list_logger_def fresh_def)
  have greeted: "fixed_greeting [''The FastAPI root endpoint was called.''] =
      (Inr (PStr ''Hello World''), [''The FastAPI root endpoint was called.''])"
    by (simp add: fixed_greeting_def)
  from root_message_is_greeting [where info = list_logger and s = fresh and x = PNone
      and ?w1.0 = "[''The FastAPI root endpoint was called.'']"
      and hello_world = fixed_greeting and v = "''Hello World''"
      and ?w2.0 = "[''The FastAPI root endpoint was called.'']"] logged greeted
  show ?thesis
    by simp
qed

text \<open>
  C4. Every invocation of the root handler makes exactly one call of the logger's
  \<open>info\<close>, with the fixed line: whatever the collaborators do, the calls it adds to
  the trace are that one call, followed by the call of the greeting provider when
  the logger returned, and the log lines among them are exactly the one line. The
  handler changes nothing itself: with a greeting provider that only computes its
  string (leaves the environment as it is), the environment after the invocation
  is the one the logger's call left.
\<close>

theorem root_one_log_emission:
  "trace (snd (root info hello_world s)) =
     trace s @ LoggerInfo ''The FastAPI root endpoint was called.'' #
       (case fst (info ''The FastAPI root endpoint was called.'' (env s)) of
          Inl e \<Rightarrow> [] | Inr x \<Rightarrow> [HelloWorld]) \<and>
   log_lines (trace (snd (root info hello_world s))) =
     log_lines (trace s) @ [''The FastAPI root endpoint was called.''] \<and>
   ((\<forall>w. snd (hello_world w) = w) \<longrightarrow>
      env (snd (root info hello_world s)) =
        snd (info ''The FastAPI root endpoint was called.'' (env s)))"
proof (intro conjI impI)
  show "trace (snd (root info hello_world s)) =
     trace s @ LoggerInfo ''The FastAPI root endpoint was called.'' #
       (case fst (info ''The FastAPI root endpoint was called.'' (env s)) of
          Inl e \<Rightarrow> [] | Inr x \<Rightarrow> [HelloWorld])"
    using root_trace [of info hello_world s] by (simp add: root_calls_def)
  show "log_lines (trace (snd (root info hello_world s))) =
     log_lines (trace s) @ [''The FastAPI root endpoint was called.'']"
    by (simp only: root_trace log_lines_append log_lines_root_calls)
next
  assume pure: "\<forall>w. snd (hello_world w) = w"
  show "env (snd (root info hello_world s)) =
        snd (info ''The FastAPI root endpoint was called.'' (env s))"
    using pure by (simp add: root_env split: prod.splits sum.splits)
qed

theorem root_one_log_emission_witness:
  "(\<forall>w. snd (fixed_greeting w) = w) \<and>
   trace (snd (root list_logger fixed_greeting fresh)) =
     [LoggerInfo ''The FastAPI root endpoint was called.'', HelloWorld] \<and>
   log_lines (trace (snd (root list_logger fixed_greeting fresh))) =
     [''The FastAPI root endpoint was called.''] \<and>
   env (snd (root list_logger fixed_greeting fresh)) =
     [''The FastAPI root endpoint was called.'']"
proof -
  have pure: "\<forall>w. snd (fixed_greeting w) = w"
    by (simp add: fixed_greeting_def)
  from root_one_log_emission [of list_logger fixed_greeting fresh] pure show ?thesis
    by (simp add: list_logger_def fresh_def)
qed

text \<open>
  C6. The root handler catches nothing: its invocation raises \<open>e\<close> exactly when the
  logger's call raises \<open>e\<close>, or the logger's call returns and the greeting provider's
  call (made in the environment the logger left) raises \<open>e\<close>. The route hands the
  same exception on to the framework's error path.
\<close>

theorem root_raises_iff_collaborator_raises:
  "(fst (root info hello_world s) = Inl e) =
     (fst (info ''The FastAPI root endpoint was called.'' (env s)) = Inl e \<or>
      (\<exists>x. fst (info ''The FastAPI root endpoint was called.'' (env s)) = Inr x) \<and>
      fst (hello_world (snd (info ''The FastAPI root endpoint was called.'' (env s)))) = Inl e) \<and>
   (fst (root_route info hello_world s) = Unhandled e) = (fst (root info hello_world s) = Inl e)"
  by (auto simp add: root_def logger_info_def greeting_hello_world_def root_route_def
      respond_def split: prod.splits sum.splits)

theorem root_raises_iff_collaborator_raises_witness:
  "fst (root raising_logger fixed_greeting fresh) = Inl ''logger failed'' \<and>
   fst (root list_logger raising_greeting fresh) = Inl ''greeting failed'' \<and>
   fst (root list_logger fixed_greeting fresh) \<noteq> Inl ''greeting failed'' \<and>
   fst (root_route list_logger raising_greeting fresh) = Unhandled ''greeting failed''"
  using root_raises_iff_collaborator_raises
      [of raising_logger fixed_greeting fresh "''logger failed''"]
    root_raises_iff_collaborator_raises
      [of list_logger raising_greeting fresh "''greeting failed''"]
    root_raises_iff_collaborator_raises
      [of list_logger fixed_greeting fresh "''greeting failed''"]
  by (simp add: raising_logger_def list_logger_def raising_greeting_def fixed_greeting_def
      fresh_def)

text \<open>
  C10. In every invocation of the root handler the call of the logger, with the
  fixed line, comes first, and the greeting provider is called after it, and only
  when the logger returned. When the greeting provider then raises, the invocation
  raises that exception with the logger's call still in the trace, before the greeting
  provider's, and the environment is the one the greeting provider left, which it was
  given by the logger's call: nothing restores the state from before the log line.
\<close>

theorem root_logs_before_greeting:
  "trace (snd (root info hello_world s)) =
     trace s @ LoggerInfo ''The FastAPI root endpoint was called.'' #
       (case fst (info ''The FastAPI root endpoint was called.'' (env s)) of
          Inl e \<Rightarrow> [] | Inr x \<Rightarrow> [HelloWorld]) \<and>
   (info ''The FastAPI root endpoint was called.'' (env s) = (Inr x, w1) \<and>
    hello_world w1 = (Inl e, w2) \<longrightarrow>
      root info hello_world s =
        (Inl e,
         \<lparr>trace = trace s @ [LoggerInfo ''The FastAPI root endpoint was called.'', HelloWorld],
          env = w2\<rparr>))"
proof (intro conjI impI)
  show "trace (snd (root info hello_world s)) =
     trace s @ LoggerInfo ''The FastAPI root endpoint was called.'' #
       (case fst (info ''The FastAPI root endpoint was called.'' (env s)) of
          Inl e \<Rightarrow> [] | Inr x \<Rightarrow> [HelloWorld])"
    using root_trace [of info hello_world s] by (simp add: root_calls_def)
next
  assume raised: "info ''The FastAPI root endpoint was called.'' (env s) = (Inr x, w1) \<and>
    hello_world w1 = (Inl e, w2)"
  then show "root info hello_world s =
        (Inl e,
         \<lparr>trace = trace s @ [LoggerInfo ''The FastAPI root endpoint was called.'', HelloWorld],
          env = w2\<rparr>)"
    using root_greeting_raises [where info = info and s = s and x = x and ?w1.0 = w1
        and hello_world = hello_world and e = e and ?w2.0 = w2]
    by simp
qed

theorem root_logs_before_greeting_witness:
  "list_logger ''The FastAPI root endpoint was called.'' (env fresh) =
     (Inr PNone, [''The FastAPI root endpoint was called.'']) \<and>
   raising_greeting [''The FastAPI root endpoint was called.''] =
     (Inl ''greeting failed'', [''The FastAPI root endpoint was called.'']) \<and>
   root list_logger raising_greeting fresh =
     (Inl ''greeting failed'',
      \<lparr>trace = [LoggerInfo ''The FastAPI root endpoint was called.'', HelloWorld],
       env = [''The FastAPI root endpoint was called.'']\<rparr>)"
proof -
  have logged: "list_logger ''The FastAPI root endpoint was called.'' (env fresh) =
      (Inr PNone, [''The FastAPI root endpoint was called.''])"
    by (simp add: list_logger_def fresh_def)
  have raised: "raising_greeting [''The FastAPI root endpoint was called.''] =
      (Inl ''greeting failed'', [''The FastAPI root endpoint was called.''])"
    by (simp add: raising_greeting_def)
  have start: "trace fresh = []"
    by (simp add: fresh_def)
  from root_logs_before_greeting [where info = list_logger and s = fresh and x = PNone
      and ?w1.0 = "[''The FastAPI root endpoint was called.'']"
      and hello_world = raising_greeting and e = "''greeting failed''"
      and ?w2.0 = "[''The FastAPI root endpoint was called.'']"] logged raised start
  show ?thesis
    by simp
qed

text \<open>
  C7 as the spec states it: two consecutive invocations of the root route make
  exactly two calls of the greeting provider. With a logger that raises, neither
  invocation reaches the greeting provider.
\<close>

theorem root_twice_two_greetings_counterexample:
  "greeting_calls (trace (snd (root_twice raising_logger fixed_greeting fresh))) = 0 \<and>
   greeting_calls (trace (snd (root_twice raising_logger fixed_greeting fresh))) \<noteq> 2 \<and>
   fst (root_twice raising_logger fixed_greeting fresh) =
     (Inl ''logger failed'', Inl ''logger failed'')"
  by (simp add: root_twice_def root_def logger_info_def raising_logger_def fresh_def)

text \<open>
  C7, amended. Two consecutive invocations of the root route produce exactly two
  log emissions and, when the logger's call returns in both of them, exactly two
  invocations of the greeting provider: no result or side effect is cached or
  shared between calls, and no state persists from one invocation to the next.

  The four parts of the statement, in this order:
  \<^item> the log lines of the two invocations are the fixed line twice, whatever the
    collaborators do;
  \<^item> when the logger returns in both invocations, the calls are log, greeting, log,
    greeting, and the result of the second invocation is built from what the second
    call of the greeting provider returns, not from the first;
  \<^item> the handler remembers nothing: the second invocation ends as an invocation
    does in any state \<open>s'\<close> whose environment (what the collaborators themselves
    hold) is the same, whatever the history of \<open>s'\<close> is;
  \<^item> with collaborators that keep nothing themselves, the environment after the two
    invocations is the one before them.
\<close>

theorem root_twice_calls:
  "log_lines (trace (snd (root_twice info hello_world s))) =
     log_lines (trace s) @
       [''The FastAPI root endpoint was called.'', ''The FastAPI root endpoint was called.''] \<and>
   (info ''The FastAPI root endpoint was called.'' (env s) = (Inr x1, w1) \<and>
    hello_world w1 = (r1, w2) \<and>
    info ''The FastAPI root endpoint was called.'' w2 = (Inr x2, w3) \<and>
    hello_world w3 = (r2, w4) \<longrightarrow>
      greeting_calls (trace (snd (root_twice info hello_world s))) =
        greeting_calls (trace s) + 2 \<and>
      trace (snd (root_twice info hello_world s)) =
        trace s @ [LoggerInfo ''The FastAPI root endpoint was called.'', HelloWorld,
                   LoggerInfo ''The FastAPI root endpoint was called.'', HelloWorld] \<and>
      snd (fst (root_twice info hello_world s)) =
        (case r2 of Inl e \<Rightarrow> Inl e | Inr v \<Rightarrow> Inr [(''message'', v)])) \<and>
   (env s' = env (snd (root info hello_world s)) \<longrightarrow>
      snd (fst (root_twice info hello_world s)) = fst (root info hello_world s') \<and>
      env (snd (root_twice info hello_world s)) = env (snd (root info hello_world s'))) \<and>
   ((\<forall>msg w. snd (info msg w) = w) \<and> (\<forall>w. snd (hello_world w) = w) \<longrightarrow>
      env (snd (root_twice info hello_world s)) = env s)"
proof (intro conjI impI)
  show "log_lines (trace (snd (root_twice info hello_world s))) =
     log_lines (trace s) @
       [''The FastAPI root endpoint was called.'', ''The FastAPI root endpoint was called.'']"
    by (simp only: root_twice_state root_trace log_lines_append log_lines_root_calls
        append_assoc append_Cons append_Nil)
next
  assume returns: "info ''The FastAPI root endpoint was called.'' (env s) = (Inr x1, w1) \<and>
    hello_world w1 = (r1, w2) \<and>
    info ''The FastAPI root endpoint was called.'' w2 = (Inr x2, w3) \<and>
    hello_world w3 = (r2, w4)"
  then have run: "root_twice info hello_world s =
      ((case r1 of Inl e \<Rightarrow> Inl e | Inr v \<Rightarrow> Inr [(''message'', v)],
        case r2 of Inl e \<Rightarrow> Inl e | Inr v \<Rightarrow> Inr [(''message'', v)]),
       \<lparr>trace = trace s @ [LoggerInfo ''The FastAPI root endpoint was called.'', HelloWorld,
                   LoggerInfo ''The FastAPI root endpoint was called.'', HelloWorld],
        env = w4\<rparr>)"
    by (simp add: root_twice_def root_def logger_info_def greeting_hello_world_def
        split: sum.splits)
  show "greeting_calls (trace (snd (root_twice info hello_world s))) =
        greeting_calls (trace s) + 2"
    by (simp add: run greeting_calls_append)
  show "trace (snd (root_twice info hello_world s)) =
        trace s @ [LoggerInfo ''The FastAPI root endpoint was called.'', HelloWorld,
                   LoggerInfo ''The FastAPI root endpoint was called.'', HelloWorld]"
    by (simp add: run)
  show "snd (fst (root_twice info hello_world s)) =
        (case r2 of Inl e \<Rightarrow> Inl e | Inr v \<Rightarrow> Inr [(''message'', v)])"
    by (simp add: run)
next
  assume same: "env s' = env (snd (root info hello_world s))"
  from root_history_free [OF same, of info hello_world]
  show "snd (fst (root_twice info hello_world s)) = fst (root info hello_world s')"
    by (simp add: root_twice_second)
  from root_history_free [OF same, of info hello_world]
  show "env (snd (root_twice info hello_world s)) = env (snd (root info hello_world s'))"
    by (simp add: root_twice_state)
next
  assume stateless: "(\<forall>msg w. snd (info msg w) = w) \<and> (\<forall>w. snd (hello_world w) = w)"
  have once: "env (snd (root info hello_world t)) = env t" for t :: "'a world"
    using stateless by (simp add: root_stateless)
  show "env (snd (root_twice info hello_world s)) = env s"
    by (simp add: root_twice_state once)
qed

theorem root_twice_calls_witness:
  "list_logger ''The FastAPI root endpoint was called.'' (env fresh) =
     (Inr PNone, [''The FastAPI root endpoint was called.'']) \<and>
   fixed_greeting [''The FastAPI root endpoint was called.''] =
     (Inr (PStr ''Hello World''), [''The FastAPI root endpoint was called.'']) \<and>
   list_logger ''The FastAPI root endpoint was called.''
       [''The FastAPI root endpoint was called.''] =
     (Inr PNone,
      [''The FastAPI root endpoint was called.'', ''The FastAPI root endpoint was called.'']) \<and>
   fixed_greeting
       [''The FastAPI root endpoint was called.'', ''The FastAPI root endpoint was called.''] =
     (Inr (PStr ''Hello World''),
      [''The FastAPI root endpoint was called.'', ''The FastAPI root endpoint was called.'']) \<and>
   env logged_before = env (snd (root list_logger fixed_greeting fresh)) \<and>
   (\<forall>msg w. snd (silent_logger msg w) = w) \<and> (\<forall>w. snd (fixed_greeting w) = w) \<and>
   log_lines (trace (snd (root_twice list_logger fixed_greeting fresh))) =
     [''The FastAPI root endpoint was called.'', ''The FastAPI root endpoint was called.''] \<and>
   greeting_calls (trace (snd (root_twice list_logger fixed_greeting fresh))) = 2 \<and>
   snd (fst (root_twice list_logger fixed_greeting fresh)) =
     Inr [(''message'', PStr ''Hello World'')] \<and>
   snd (fst (root_twice list_logger fixed_greeting fresh)) =
     fst (root list_logger fixed_greeting logged_before) \<and>
   env (snd (root_twice silent_logger fixed_greeting fresh)) = env fresh"
proof -
  have first_log: "list_logger ''The FastAPI root endpoint was called.'' (env fresh) =
      (Inr PNone, [''The FastAPI root endpoint was called.''])"
    by (simp add: list_logger_def fresh_def)
  have first_greeting: "fixed_greeting [''The FastAPI root endpoint was called.''] =
      (Inr (PStr ''Hello World''), [''The FastAPI root endpoint was called.''])"
    by (simp add: fixed_greeting_def)
  have second_log: "list_logger ''The FastAPI root endpoint was called.''
       [''The FastAPI root endpoint was called.''] =
     (Inr PNone,
      [''The FastAPI root endpoint was called.'', ''The FastAPI root endpoint was called.''])"
    by (simp add: list_logger_def)
  have second_greeting: "fixed_greeting
       [''The FastAPI root endpoint was called.'', ''The FastAPI root endpoint was called.''] =
     (Inr (PStr ''Hello World''),
      [''The FastAPI root endpoint was called.'', ''The FastAPI root endpoint was called.''])"
    by (simp add: fixed_greeting_def)
  have start: "trace fresh = []"
    by (simp add: fresh_def)
  have same: "env logged_before = env (snd (root list_logger fixed_greeting fresh))"
    using root_returns [where info = list_logger and s = fresh and x = PNone
        and ?w1.0 = "[''The FastAPI root endpoint was called.'']"
        and hello_world = fixed_greeting and v = "PStr ''Hello World''"
        and ?w2.0 = "[''The FastAPI root endpoint was called.'']"] first_log first_greeting
    by (simp add: logged_before_def)
  have silent: "\<forall>msg w. snd (silent_logger msg w) = w"
    by (simp add: silent_logger_def)
  have pure: "\<forall>w. snd (fixed_greeting w) = w"
    by (simp add: fixed_greeting_def)
  note run = root_twice_calls [where info = list_logger and s = fresh and ?x1.0 = PNone
      and ?w1.0 = "[''The FastAPI root endpoint was called.'']"
      and hello_world = fixed_greeting and ?r1.0 = "Inr (PStr ''Hello World'')"
      and ?w2.0 = "[''The FastAPI root endpoint was called.'']" and ?x2.0 = PNone
      and ?w3.0 = "[''The FastAPI root endpoint was called.'',
                    ''The FastAPI root endpoint was called.'']"
      and ?r2.0 = "Inr (PStr ''Hello World'')"
      and ?w4.0 = "[''The FastAPI root endpoint was called.'',
                    ''The FastAPI root endpoint was called.'']"
      and s' = logged_before]
  have lines: "log_lines (trace (snd (root_twice list_logger fixed_greeting fresh))) =
     [''The FastAPI root endpoint was called.'', ''The FastAPI root endpoint was called.'']"
    using run start by simp
  have calls: "greeting_calls (trace (snd (root_twice list_logger fixed_greeting fresh))) = 2 \<and>
     snd (fst (root_twice list_logger fixed_greeting fresh)) =
       Inr [(''message'', PStr ''Hello World'')]"
    using run first_log first_greeting second_log second_greeting start by simp
  have afresh: "snd (fst (root_twice list_logger fixed_greeting fresh)) =
     fst (root list_logger fixed_greeting logged_before)"
    using run same by blast
  have quiet: "env (snd (root_twice silent_logger fixed_greeting fresh)) = env fresh"
    using root_twice_calls [where info = silent_logger and hello_world = fixed_greeting
      and s = fresh] silent pure by blast
  show ?thesis
    using first_log first_greeting second_log second_greeting same silent pure
      lines calls afresh quiet
    by (intro conjI) (rule first_log first_greeting second_log second_greeting same silent
        pure lines afresh quiet conjunct1 [OF calls] conjunct2 [OF calls])+
qed

subsection \<open>The item route\<close>

text \<open>
  C2. For every integer \<open>item_id\<close> and every \<open>q\<close> that is a string or absent, the
  item handler returns the dictionary \<open>{"item_id": item_id, "q": q}\<close> with both
  arguments as they came: the integer itself, the string \<open>t\<close> itself when \<open>q\<close> is the
  string \<open>t\<close>, and \<open>None\<close> when \<open>q\<close> is \<open>None\<close>. The framework answers with status 200
  and that body, and so does the route for a path segment that parses as \<open>item_id\<close>,
  with the \<open>q\<close> of the query string.
\<close>

theorem read_item_echoes:
  "fst (read_item item_id (Some t) s :: ('e + dict) \<times> 'w world) =
     Inr [(''item_id'', PInt item_id), (''q'', PStr t)] \<and>
   fst (read_item item_id None s :: ('e + dict) \<times> 'w world) =
     Inr [(''item_id'', PInt item_id), (''q'', PNone)] \<and>
   fst (respond (read_item item_id (Some t) s :: ('e + dict) \<times> 'w world)) =
     Reply 200 [(''item_id'', PInt item_id), (''q'', PStr t)] \<and>
   fst (respond (read_item item_id None s :: ('e + dict) \<times> 'w world)) =
     Reply 200 [(''item_id'', PInt item_id), (''q'', PNone)] \<and>
   (parse_int segment = Some item_id \<and> query ''q'' = Some t \<longrightarrow>
      fst (items_route parse_int reject_status read_item segment query s
             :: 'e reply \<times> 'w world) =
        Reply 200 [(''item_id'', PInt item_id), (''q'', PStr t)]) \<and>
   (parse_int segment = Some item_id \<and> query ''q'' = None \<longrightarrow>
      fst (items_route parse_int reject_status read_item segment query s
             :: 'e reply \<times> 'w world) =
        Reply 200 [(''item_id'', PInt item_id), (''q'', PNone)])"
  by (simp add: read_item_def respond_def items_route_def read_item_q_default_def)

theorem read_item_echoes_witness:
  "scenario_parse_int ''5'' = Some 5 \<and> q_test ''q'' = Some ''test'' \<and>
   no_query ''q'' = None \<and>
   fst (read_item 5 (Some ''test'') fresh :: (string + dict) \<times> string list world) =
     Inr [(''item_id'', PInt 5), (''q'', PStr ''test'')] \<and>
   fst (read_item 5 None fresh :: (string + dict) \<times> string list world) =
     Inr [(''item_id'', PInt 5), (''q'', PNone)] \<and>
   fst (items_route scenario_parse_int 422 read_item ''5'' q_test fresh
          :: string reply \<times> string list world) =
     Reply 200 [(''item_id'', PInt 5), (''q'', PStr ''test'')] \<and>
   fst (items_route scenario_parse_int 422 read_item ''5'' no_query fresh
          :: string reply \<times> string list world) =
     Reply 200 [(''item_id'', PInt 5), (''q'', PNone)]"
proof -
  have parsed: "scenario_parse_int ''5'' = Some 5"
    by (simp add: scenario_parse_int_def)
  have supplied: "q_test ''q'' = Some ''test''"
    by (simp add: q_test_def)
  have absent: "no_query ''q'' = None"
    by (simp add: no_query_def)
  from read_item_echoes [where ?'e = string and item_id = 5 and t = "''test''"
      and s = fresh and parse_int = scenario_parse_int and segment = "''5''"
      and reject_status = 422 and query = q_test]
    read_item_echoes [where ?'e = string and item_id = 5 and t = "''test''"
      and s = fresh and parse_int = scenario_parse_int and segment = "''5''"
      and reject_status = 422 and query = no_query]
    parsed supplied absent
  show ?thesis
    by simp
qed

text \<open>
  C3. For every integer \<open>item_id\<close>, when the request carries no query parameter
  \<open>q\<close>, the handler is run with the default of its signature and the body is
  \<open>{"item_id": item_id, "q": null}\<close>: the key \<open>"q"\<close> is there, bound to \<open>None\<close>.
\<close>

theorem read_item_q_absent:
  assumes "query ''q'' = None"
    and "parse_int segment = Some item_id"
  shows "fst (items_route parse_int reject_status read_item segment query s
                :: 'e reply \<times> 'w world) =
           Reply 200 [(''item_id'', PInt item_id), (''q'', PNone)] \<and>
         fst (read_item item_id read_item_q_default s :: ('e + dict) \<times> 'w world) =
           Inr [(''item_id'', PInt item_id), (''q'', PNone)] \<and>
         (\<exists>body. fst (items_route parse_int reject_status read_item segment query s
                        :: 'e reply \<times> 'w world) = Reply 200 body \<and>
                 map_of body ''q'' = Some PNone)"
  using assms
  by (simp add: items_route_def respond_def read_item_def read_item_q_default_def)

theorem read_item_q_absent_witness:
  "no_query ''q'' = None \<and> scenario_parse_int ''5'' = Some 5 \<and>
   fst (items_route scenario_parse_int 422 read_item ''5'' no_query fresh
          :: string reply \<times> string list world) =
     Reply 200 [(''item_id'', PInt 5), (''q'', PNone)]"
proof -
  have absent: "no_query ''q'' = None"
    by (simp add: no_query_def)
  have parsed: "scenario_parse_int ''5'' = Some 5"
    by (simp add: scenario_parse_int_def)
  from read_item_q_absent [where ?'e = string and query = no_query
      and parse_int = scenario_parse_int and segment = "''5''" and item_id = 5
      and reject_status = 422 and s = fresh, OF absent parsed] absent parsed
  show ?thesis
    by simp
qed

text \<open>
  C5. For the item route, a path segment that does not parse as an integer is
  answered with the framework's client-error status (4xx), never with 200, and the
  handler is not run: the reply and the state after it are the same whatever the
  handler registered for the route would do.
\<close>

theorem items_route_rejects_non_integer:
  assumes "parse_int segment = None"
    and "400 \<le> reject_status" and "reject_status < 500"
  shows "items_route parse_int reject_status handler segment query s =
           (Rejected reject_status, s) \<and>
         status (fst (items_route parse_int reject_status handler segment query s)) \<noteq>
           Some 200 \<and>
         (\<exists>code. status (fst (items_route parse_int reject_status handler segment query s)) =
                   Some code \<and> 400 \<le> code \<and> code < 500)"
  using assms by (simp add: items_route_def)

theorem items_route_rejects_non_integer_witness:
  "scenario_parse_int ''abc'' = None \<and> (400::nat) \<le> 422 \<and> (422::nat) < 500 \<and>
   items_route scenario_parse_int 422 unused_handler ''abc'' no_query fresh =
     (Rejected 422, fresh) \<and>
   status (fst (items_route scenario_parse_int 422 unused_handler ''abc'' no_query fresh)) \<noteq>
     Some 200"
proof -
  have malformed: "scenario_parse_int ''abc'' = None"
    by (simp add: scenario_parse_int_def)
  have lower: "(400::nat) \<le> 422"
    by simp
  have upper: "(422::nat) < 500"
    by simp
  from items_route_rejects_non_integer [where parse_int = scenario_parse_int
      and segment = "''abc''" and reject_status = 422 and handler = unused_handler
      and query = no_query and s = fresh, OF malformed lower upper] malformed
  show ?thesis
    by simp
qed

text \<open>
  C8. The item handler is a function of its two arguments only: two invocations
  with the same \<open>item_id\<close> and \<open>q\<close> return the same dictionary in any two states,
  whatever calls were made before and whatever the environments hold; the same
  holds for the replies of the route.
\<close>

theorem read_item_deterministic:
  "fst (read_item item_id q s :: ('e + dict) \<times> 'w world) =
     fst (read_item item_id q s' :: ('e + dict) \<times> 'v world) \<and>
   fst (items_route parse_int reject_status read_item segment query s
          :: 'e reply \<times> 'w world) =
     fst (items_route parse_int reject_status read_item segment query s'
          :: 'e reply \<times> 'v world)"
  by (simp add: read_item_def items_route_def respond_def split: option.splits)

text \<open>
  C9. An invocation of the item handler has no side effect: it calls neither the
  logger nor the greeting provider (the trace is as before) and the environment is
  as before; the state after the handler, and after the route, is the state before.
\<close>

theorem read_item_no_side_effects:
  "snd (read_item item_id q s :: ('e + dict) \<times> 'w world) = s \<and>
   trace (snd (read_item item_id q s :: ('e + dict) \<times> 'w world)) = trace s \<and>
   env (snd (read_item item_id q s :: ('e + dict) \<times> 'w world)) = env s \<and>
   snd (items_route parse_int reject_status read_item segment query s
          :: 'e reply \<times> 'w world) = s"
  by (simp add: read_item_def items_route_def respond_def split: option.splits)

end
